theory Spec2Isabelle
  imports Complex_Main
begin

section \<open>Module constants of flappybird.py\<close>

text \<open>
  Python's unbounded integers are modelled as \<open>int\<close>. Python's floats are modelled as
  \<open>real\<close>: the properties below are about comparisons and about who writes which
  attribute, and every concrete run used below stays far away from a rounding boundary.
\<close>

definition FPS :: int where
  "FPS = 60"

definition TILE :: int where
  "TILE = 284"

definition ANIMATION_SPEED :: real where
  "ANIMATION_SPEED = 18 / 100"

definition WIN_WIDTH :: int where
  "WIN_WIDTH = TILE * 2"

definition WIN_HEIGHT :: int where
  "WIN_HEIGHT = 512"

section \<open>Time conversion\<close>

definition frames_to_msec :: "real \<Rightarrow> real \<Rightarrow> real" where
  "frames_to_msec frames fps = 1000 * frames / fps"

definition msec_to_frames :: "real \<Rightarrow> real \<Rightarrow> real" where
  "msec_to_frames milliseconds fps = fps * milliseconds / 1000"

text \<open>Python's \<open>int(x)\<close> on a float truncates toward zero.\<close>

definition py_int :: "real \<Rightarrow> int" where
  "py_int r = (if 0 \<le> r then \<lfloor>r\<rfloor> else \<lceil>r\<rceil>)"

text \<open>
  Python's \<open>a % b\<close> on numbers takes the sign of the divisor; the only divisor used
  in the program is the positive constant \<open>msec_to_frames(ADD_INTERVAL)\<close>, so
  the ZeroDivisionError branch cannot be taken.
\<close>

definition py_mod :: "real \<Rightarrow> real \<Rightarrow> real" where
  "py_mod a b = a - b * of_int \<lfloor>a / b\<rfloor>"

section \<open>Bird\<close>

definition Bird_WIDTH :: int where
  "Bird_WIDTH = 32"

definition Bird_HEIGHT :: int where
  "Bird_HEIGHT = 32"

definition SINK_SPEED :: real where
  "SINK_SPEED = 18 / 100"

definition CLIMB_SPEED :: real where
  "CLIMB_SPEED = 3 / 10"

definition CLIMB_DURATION :: real where
  "CLIMB_DURATION = 3333 / 10"

record Bird =
  bird_x :: real
  bird_y :: real
  msec_to_climb :: real

definition Bird_init :: "real \<Rightarrow> real \<Rightarrow> real \<Rightarrow> Bird" where
  "Bird_init x0 y0 m0 = \<lparr>bird_x = x0, bird_y = y0, msec_to_climb = m0\<rparr>"

definition Bird_update :: "real \<Rightarrow> Bird \<Rightarrow> Bird" where
  "Bird_update delta_frames b =
     (if msec_to_climb b > 0 then
        (let frac_climb_done = 1 - msec_to_climb b / CLIMB_DURATION in
         b\<lparr>bird_y := bird_y b
                 - CLIMB_SPEED * frames_to_msec delta_frames (of_int FPS)
                   * (1 - cos (frac_climb_done * pi)),
           msec_to_climb := msec_to_climb b - frames_to_msec delta_frames (of_int FPS)\<rparr>)
      else b\<lparr>bird_y := bird_y b + SINK_SPEED * frames_to_msec delta_frames (of_int FPS)\<rparr>)"

section \<open>PipePair\<close>

definition PipePair_WIDTH :: int where
  "PipePair_WIDTH = 80"

definition PIECE_HEIGHT :: int where
  "PIECE_HEIGHT = 32"

definition ADD_INTERVAL :: int where
  "ADD_INTERVAL = 3000"

record PipePair =
  pipe_x :: real
  score_counted :: bool
  top_pieces :: int
  bottom_pieces :: int

definition total_pipe_body_pieces :: int where
  "total_pipe_body_pieces =
     py_int (of_int (WIN_HEIGHT - 3 * Bird_HEIGHT - 3 * PIECE_HEIGHT) / of_int PIECE_HEIGHT)"

text \<open>
  \<open>randint(a, b)\<close> returns some integer \<open>r\<close> with \<open>a \<le> r \<le> b\<close>. The draw is an
  argument of the constructor, and \<open>randint_result\<close> says which draws can occur.
\<close>

definition randint_result :: "int \<Rightarrow> int \<Rightarrow> int \<Rightarrow> bool" where
  "randint_result a b r = (a \<le> r \<and> r \<le> b)"

text \<open>
  The constructor, without the drawing on the image surface: the draw fixes
  \<open>bottom_pieces\<close>, the rest goes to \<open>top_pieces\<close>, and after the blits both counts are
  incremented for the end pieces.
\<close>

definition PipePair_init :: "int \<Rightarrow> PipePair" where
  "PipePair_init r =
     (let bottom0 = r;
          top0 = total_pipe_body_pieces - bottom0
      in \<lparr>pipe_x = of_int (WIN_WIDTH - 1), score_counted = False,
          top_pieces = top0 + 1, bottom_pieces = bottom0 + 1\<rparr>)"

definition top_height_px :: "PipePair \<Rightarrow> int" where
  "top_height_px p = top_pieces p * PIECE_HEIGHT"

definition bottom_height_px :: "PipePair \<Rightarrow> int" where
  "bottom_height_px p = bottom_pieces p * PIECE_HEIGHT"

definition visible :: "PipePair \<Rightarrow> bool" where
  "visible p = (- of_int PipePair_WIDTH < pipe_x p \<and> pipe_x p < of_int WIN_WIDTH)"

definition PipePair_update :: "real \<Rightarrow> PipePair \<Rightarrow> PipePair" where
  "PipePair_update delta_frames p =
     p\<lparr>pipe_x := pipe_x p - ANIMATION_SPEED * frames_to_msec delta_frames (of_int FPS)\<rparr>"

text \<open>
  The vertical gap of a pipe pair: from the bottom edge of the top pipe
  (\<open>top_height_px\<close>) down to the top edge of the bottom pipe
  (\<open>WIN_HEIGHT - bottom_height_px\<close>).
\<close>

definition gap_px :: "PipePair \<Rightarrow> int" where
  "gap_px p = (WIN_HEIGHT - bottom_height_px p) - top_height_px p"

section \<open>Game\<close>

datatype key = K_ESCAPE | K_PAUSE | K_p | K_UP | K_RETURN | K_SPACE | K_OTHER

datatype event = QUIT | KEYUP key | MOUSEBUTTONUP | OTHER_EVENT

record Game =
  bird :: Bird
  pipes :: "PipePair list"
  frame_clock :: int
  score :: int
  done_flag :: bool
  paused :: bool

definition Game_init :: Game where
  "Game_init =
     \<lparr>bird = Bird_init 50 (of_int (py_int (of_int WIN_HEIGHT / 2 - of_int Bird_HEIGHT / 2))) 2,
      pipes = [], frame_clock = 0, score = 0, done_flag = False, paused = False\<rparr>"

definition is_ended :: "Game \<Rightarrow> bool" where
  "is_ended g = done_flag g"

text \<open>The event loop; \<open>break\<close> leaves the remaining events unread.\<close>

fun handle_events :: "event list \<Rightarrow> Game \<Rightarrow> Game" where
  "handle_events [] g = g"
| "handle_events (e # es) g =
     (if e = QUIT \<or> e = KEYUP K_ESCAPE then g\<lparr>done_flag := True\<rparr>
      else if e = KEYUP K_PAUSE \<or> e = KEYUP K_p then
        handle_events es (g\<lparr>paused := \<not> paused g\<rparr>)
      else if e = MOUSEBUTTONUP \<or> e = KEYUP K_UP \<or> e = KEYUP K_RETURN \<or> e = KEYUP K_SPACE then
        handle_events es (g\<lparr>bird := (bird g)\<lparr>msec_to_climb := CLIMB_DURATION\<rparr>\<rparr>)
      else handle_events es g)"

text \<open>\<open>while self.pipes and not self.pipes[0].visible: self.pipes.popleft()\<close>\<close>

fun cull :: "PipePair list \<Rightarrow> PipePair list" where
  "cull [] = []"
| "cull (p # ps) = (if \<not> visible p then cull ps else p # ps)"

text \<open>
  The scoring loop over the deque, threading the score: a pipe whose right edge is left of
  the bird and that has not been counted adds one point and is marked.
\<close>

fun score_loop :: "real \<Rightarrow> PipePair list \<Rightarrow> int \<Rightarrow> PipePair list \<times> int" where
  "score_loop bx [] sc = ([], sc)"
| "score_loop bx (p # ps) sc =
     (if pipe_x p + of_int PipePair_WIDTH < bx \<and> \<not> score_counted p then
        (let (ps', sc') = score_loop bx ps (sc + 1)
         in (p\<lparr>score_counted := True\<rparr> # ps', sc'))
      else
        (let (ps', sc') = score_loop bx ps sc in (p # ps', sc')))"

definition score_pass :: "Game \<Rightarrow> Game" where
  "score_pass g =
     (let (ps', sc') = score_loop (bird_x (bird g)) (pipes g) (score g)
      in g\<lparr>pipes := ps', score := sc'\<rparr>)"

text \<open>
  \<open>update_world\<close>. The mask test \<open>pygame.sprite.collide_mask\<close> belongs to pygame and is
  the argument \<open>coll\<close>; \<open>r\<close> is the draw of \<open>randint\<close> used if a pipe is added.
\<close>

definition spawn_due :: "Game \<Rightarrow> bool" where
  "spawn_due g =
     (\<not> (paused g \<or>
          py_mod (of_int (frame_clock g)) (msec_to_frames (of_int ADD_INTERVAL) (of_int FPS)) \<noteq> 0))"

definition collision :: "(PipePair \<Rightarrow> Bird \<Rightarrow> bool) \<Rightarrow> Game \<Rightarrow> bool" where
  "collision coll g =
     (list_ex (\<lambda>p. coll p (bird g)) (pipes g)
      \<or> 0 \<ge> bird_y (bird g)
      \<or> bird_y (bird g) \<ge> of_int (WIN_HEIGHT - Bird_HEIGHT))"

definition spawn_step :: "int \<Rightarrow> Game \<Rightarrow> Game" where
  "spawn_step r g = (if spawn_due g then g\<lparr>pipes := pipes g @ [PipePair_init r]\<rparr> else g)"

definition update_world :: "(PipePair \<Rightarrow> Bird \<Rightarrow> bool) \<Rightarrow> int \<Rightarrow> Game \<Rightarrow> Game" where
  "update_world coll r g =
     (let g1 = spawn_step r g in
      if \<not> paused g1 then
        (let g2 = (if collision coll g1 then g1\<lparr>done_flag := True\<rparr> else g1);
             g3 = g2\<lparr>pipes := cull (pipes g2)\<rparr>;
             g4 = g3\<lparr>pipes := map (PipePair_update 1) (pipes g3)\<rparr>;
             g5 = g4\<lparr>bird := Bird_update 1 (bird g4)\<rparr>
         in score_pass g5)
      else g1)"

text \<open>\<open>render_world\<close> draws, then advances the frame counter.\<close>

definition render_world :: "Game \<Rightarrow> Game" where
  "render_world g = g\<lparr>frame_clock := frame_clock g + 1\<rparr>"

text \<open>One iteration of the main loop.\<close>

definition tick :: "(PipePair \<Rightarrow> Bird \<Rightarrow> bool) \<Rightarrow> int \<Rightarrow> event list \<Rightarrow> Game \<Rightarrow> Game" where
  "tick coll r es g = render_world (update_world coll r (handle_events es g))"

text \<open>Two mask tests for concrete runs: one that never reports a hit, one that always does.\<close>

definition no_hit :: "PipePair \<Rightarrow> Bird \<Rightarrow> bool" where
  "no_hit p b = False"

definition always_hit :: "PipePair \<Rightarrow> Bird \<Rightarrow> bool" where
  "always_hit p b = True"

text \<open>A pipe pair as the constructor makes it, moved to a given \<open>x\<close>.\<close>

definition pipe_at :: "real \<Rightarrow> PipePair" where
  "pipe_at x0 = (PipePair_init 4)\<lparr>pipe_x := x0\<rparr>"

section \<open>The life of a bird\<close>

text \<open>
  After construction a bird is written by two places only: \<open>update_world\<close> calls
  \<open>bird.update()\<close> with the default \<open>delta_frames = 1\<close>, and \<open>handle_events\<close> sets
  \<open>msec_to_climb\<close> to \<open>CLIMB_DURATION\<close> on a climb input. \<open>bird_run\<close> applies a
  sequence of these two, first element first.
\<close>

datatype bird_input = UPDATE | CLIMB

fun bird_step :: "bird_input \<Rightarrow> Bird \<Rightarrow> Bird" where
  "bird_step UPDATE b = Bird_update 1 b"
| "bird_step CLIMB b = b\<lparr>msec_to_climb := CLIMB_DURATION\<rparr>"

fun bird_run :: "bird_input list \<Rightarrow> Bird \<Rightarrow> Bird" where
  "bird_run [] b = b"
| "bird_run (i # is) b = bird_run is (bird_step i b)"

definition timer_ok :: "Bird \<Rightarrow> bool" where
  "timer_ok b =
     (- frames_to_msec 1 (of_int FPS) \<le> msec_to_climb b \<and> msec_to_climb b \<le> CLIMB_DURATION)"

section \<open>Named conditions and sample states\<close>

text \<open>The test of the scoring loop: the right edge is left of the bird, and not yet counted.\<close>

definition scorable :: "real \<Rightarrow> PipePair \<Rightarrow> bool" where
  "scorable bx p = (pipe_x p + of_int PipePair_WIDTH < bx \<and> \<not> score_counted p)"

text \<open>
  A running game whose bird has sunk to the floor (\<open>y = WIN_HEIGHT - Bird.HEIGHT\<close>), with
  one pipe pair already off screen, one just left of the bird and one ahead of it.
\<close>

definition g_floor :: Game where
  "g_floor =
     \<lparr>bird = \<lparr>bird_x = 50, bird_y = 480, msec_to_climb = 0\<rparr>,
      pipes = [pipe_at (- 90), pipe_at (- 40), pipe_at 200],
      frame_clock = 1, score = 0, done_flag = False, paused = False\<rparr>"

text \<open>The same pipes with the bird in mid-air, in a game whose \<open>done\<close> is already set.\<close>

definition g_over :: Game where
  "g_over =
     \<lparr>bird = \<lparr>bird_x = 50, bird_y = 240, msec_to_climb = 0\<rparr>,
      pipes = [pipe_at (- 90), pipe_at (- 40), pipe_at 200],
      frame_clock = 1, score = 0, done_flag = True, paused = False\<rparr>"

section \<open>Evaluating the configuration\<close>

lemmas geometry_defs =
  FPS_def TILE_def WIN_WIDTH_def WIN_HEIGHT_def Bird_HEIGHT_def Bird_WIDTH_def
  PipePair_WIDTH_def PIECE_HEIGHT_def ADD_INTERVAL_def

lemma total_pipe_body_pieces_eq: "total_pipe_body_pieces = 10"
  by (simp add: total_pipe_body_pieces_def py_int_def geometry_defs)

lemma gap_px_init:
  "gap_px (PipePair_init r) = WIN_HEIGHT - (total_pipe_body_pieces + 2) * PIECE_HEIGHT"
  by (simp add: gap_px_def PipePair_init_def top_height_px_def bottom_height_px_def
      Let_def algebra_simps)

section \<open>The gap of a pipe pair\<close>

text \<open>
  C1, as stated, fails: for the draw \<open>r = 1\<close> the gap of the finished pipe pair is not
  \<open>3 * Bird.HEIGHT = 96\<close>.
\<close>

theorem C1_gap_is_not_three_birds: "gap_px (PipePair_init 1) \<noteq> 3 * Bird_HEIGHT"
  by (simp add: gap_px_init total_pipe_body_pieces_eq geometry_defs)

text \<open>
  C1, amended: for every draw, the gap between \<open>top_height_px\<close> and
  \<open>WIN_HEIGHT - bottom_height_px\<close> after construction is exactly
  \<open>3 * Bird.HEIGHT + PIECE_HEIGHT = 128\<close> pixels: the window holds 16 pieces, the ten
  body pieces and the two end pieces fill 12 of them.
\<close>

theorem C1_gap_after_construction:
  "gap_px (PipePair_init r) = 3 * Bird_HEIGHT + PIECE_HEIGHT \<and> gap_px (PipePair_init r) = 128"
  by (simp add: gap_px_init total_pipe_body_pieces_eq geometry_defs)

theorem C1_gap_after_construction_witness:
  "randint_result 1 total_pipe_body_pieces 7 \<and> gap_px (PipePair_init 7) = 128"
  using C1_gap_after_construction [of 7]
  by (simp add: randint_result_def total_pipe_body_pieces_eq)

section \<open>Visibility\<close>

text \<open>
  C4, as stated, fails in its scenario: a pipe pair at \<open>x = -80\<close> is not visible, since
  the comparison \<open>-WIDTH < x\<close> is strict.
\<close>

theorem C4_not_visible_at_minus_width:
  "\<not> visible \<lparr>pipe_x = - 80, score_counted = False, top_pieces = 5, bottom_pieces = 7\<rparr>"
  by (simp add: visible_def geometry_defs)

text \<open>
  C4, amended: \<open>visible\<close> holds exactly when \<open>-80 < x < 568\<close>; a pipe pair at
  \<open>x = -81\<close> and one at \<open>x = -80\<close> are both not visible, and one at \<open>x = -79\<close> is.
\<close>

theorem C4_visible_iff:
  "visible p = (- of_int PipePair_WIDTH < pipe_x p \<and> pipe_x p < of_int WIN_WIDTH)
   \<and> visible p = (- 80 < pipe_x p \<and> pipe_x p < 568)
   \<and> \<not> visible (p\<lparr>pipe_x := - 81\<rparr>)
   \<and> \<not> visible (p\<lparr>pipe_x := - 80\<rparr>)
   \<and> visible (p\<lparr>pipe_x := - 79\<rparr>)"
  by (simp add: visible_def geometry_defs)

theorem C4_visible_iff_witness:
  "visible (PipePair_init 3) \<and> \<not> visible ((PipePair_init 3)\<lparr>pipe_x := - 80\<rparr>)"
  using C4_visible_iff [of "PipePair_init 3"]
  by (simp add: PipePair_init_def Let_def geometry_defs)

section \<open>The number of pieces\<close>

text \<open>
  C5, as stated, fails: after construction with the draw \<open>r = 1\<close> the two counts do not
  add up to \<open>total_pipe_body_pieces\<close>.
\<close>

theorem C5_sum_is_not_total:
  "top_pieces (PipePair_init 1) + bottom_pieces (PipePair_init 1) \<noteq> total_pipe_body_pieces"
  by (simp add: PipePair_init_def Let_def)

text \<open>
  C5, amended: after every construction \<open>top_pieces + bottom_pieces\<close> is
  \<open>total_pipe_body_pieces + 2\<close>, where \<open>total_pipe_body_pieces\<close> is
  \<open>floor((WIN_HEIGHT - 3 * Bird.HEIGHT - 3 * PIECE_HEIGHT) / PIECE_HEIGHT) = 10\<close>; the sum
  is 12 whatever the draw.
\<close>

theorem C5_sum_of_pieces:
  "top_pieces (PipePair_init r) + bottom_pieces (PipePair_init r) = total_pipe_body_pieces + 2
   \<and> total_pipe_body_pieces =
       \<lfloor>of_int (WIN_HEIGHT - 3 * Bird_HEIGHT - 3 * PIECE_HEIGHT) / (of_int PIECE_HEIGHT :: real)\<rfloor>
   \<and> total_pipe_body_pieces = 10
   \<and> top_pieces (PipePair_init r) + bottom_pieces (PipePair_init r) = 12"
  by (simp add: PipePair_init_def Let_def total_pipe_body_pieces_eq geometry_defs)

theorem C5_sum_of_pieces_witness:
  "randint_result 1 total_pipe_body_pieces 10
   \<and> top_pieces (PipePair_init 10) = 1 \<and> bottom_pieces (PipePair_init 10) = 11"
  using C5_sum_of_pieces [of 10]
  by (simp add: randint_result_def PipePair_init_def Let_def)

section \<open>The climb timer\<close>

lemma frame_msec: "frames_to_msec 1 (of_int FPS) = 50 / 3"
  by (simp add: frames_to_msec_def FPS_def)

lemma msec_Bird_update:
  "msec_to_climb (Bird_update 1 b) =
     (if msec_to_climb b > 0 then msec_to_climb b - 50 / 3 else msec_to_climb b)"
  by (simp add: Bird_update_def Let_def frame_msec)

lemma timer_ok_step: "timer_ok b \<Longrightarrow> timer_ok (bird_step i b)"
  by (cases i) (auto simp: timer_ok_def msec_Bird_update frame_msec CLIMB_DURATION_def)

lemma timer_ok_run: "timer_ok b \<Longrightarrow> timer_ok (bird_run is b)"
  by (induction "is" arbitrary: b) (simp_all add: timer_ok_step)

lemma timer_ok_init: "timer_ok (bird Game_init)"
  by (simp add: timer_ok_def Game_init_def Bird_init_def frame_msec CLIMB_DURATION_def)

text \<open>
  C6, as stated, fails: the game's bird starts with \<open>msec_to_climb = 2\<close>, and its first
  \<open>update\<close> subtracts a whole frame (\<open>1000 / 60\<close> ms), which leaves the timer negative.
\<close>

theorem C6_timer_negative_after_first_update:
  "msec_to_climb (bird_run [UPDATE] (bird Game_init)) < 0"
  by (simp add: msec_Bird_update Game_init_def Bird_init_def)

text \<open>
  C6, amended: for every sequence of updates and climb inputs applied to the game's
  initial bird, \<open>-frames_to_msec(1) \<le> msec_to_climb \<le> CLIMB_DURATION\<close>; \<open>update\<close> never
  increases the timer, and the climb input sets it to \<open>CLIMB_DURATION\<close>. The timer can
  fall below 0, by at most one frame's duration.
\<close>

theorem C6_timer_bounds:
  "- frames_to_msec 1 (of_int FPS) \<le> msec_to_climb (bird_run is (bird Game_init))
   \<and> msec_to_climb (bird_run is (bird Game_init)) \<le> CLIMB_DURATION
   \<and> msec_to_climb (bird_step UPDATE (bird_run is (bird Game_init)))
       \<le> msec_to_climb (bird_run is (bird Game_init))
   \<and> msec_to_climb (bird_step CLIMB (bird_run is (bird Game_init))) = CLIMB_DURATION"
  using timer_ok_run [OF timer_ok_init, of "is"]
  by (simp add: timer_ok_def msec_Bird_update)

theorem C6_timer_bounds_witness:
  "msec_to_climb (bird_run [CLIMB, UPDATE, UPDATE] (bird Game_init)) = 8999 / 30
   \<and> 8999 / 30 \<le> CLIMB_DURATION"
  using C6_timer_bounds [of "[CLIMB, UPDATE, UPDATE]"]
  by (simp add: msec_Bird_update CLIMB_DURATION_def frame_msec)

section \<open>Culling\<close>

lemma cull_split: "\<exists>removed. ps = removed @ cull ps \<and> (\<forall>p\<in>set removed. \<not> visible p)"
proof (induction ps)
  case Nil
  show ?case by simp
next
  case (Cons p ps)
  show ?case
  proof (cases "visible p")
    case True
    then show ?thesis by simp
  next
    case False
    from Cons obtain removed where r: "ps = removed @ cull ps" "\<forall>q\<in>set removed. \<not> visible q"
      by blast
    from r(1) have "p # ps = (p # removed) @ cull ps" by simp
    with False r(2) show ?thesis
      by (metis cull.simps(2) set_ConsD)
  qed
qed

lemma cull_visible:
  "sorted_wrt (\<lambda>p q. pipe_x p \<le> pipe_x q) ps \<Longrightarrow> \<forall>p\<in>set ps. pipe_x p < of_int WIN_WIDTH
   \<Longrightarrow> \<forall>p\<in>set (cull ps). visible p"
proof (induction ps)
  case Nil
  show ?case by simp
next
  case (Cons p ps)
  show ?case
  proof (cases "visible p")
    case True
    then have lo: "- of_int PipePair_WIDTH < pipe_x p" by (simp add: visible_def)
    have "visible q" if "q \<in> set ps" for q
    proof -
      from Cons.prems(1) that have "pipe_x p \<le> pipe_x q" by simp
      with lo Cons.prems(2) that show ?thesis by (simp add: visible_def)
    qed
    with True show ?thesis by simp
  next
    case False
    with Cons show ?thesis by simp
  qed
qed

lemma length_cull: "length (cull ps) \<le> length ps"
  by (induction ps) simp_all

lemma cull_snoc: "visible q \<Longrightarrow> cull (ps @ [q]) = cull ps @ [q]"
  by (induction ps) simp_all

text \<open>
  C7: the culling loop removes a prefix of the deque made of pipes that are not visible,
  and nothing else; and if the deque is ordered head first by ascending \<open>x\<close> with every
  \<open>x\<close> below \<open>WIN_WIDTH\<close>, every pipe left after the loop is visible.
\<close>

theorem C7_cull_removes_only_invisible:
  "(\<exists>removed. ps = removed @ cull ps \<and> (\<forall>p\<in>set removed. \<not> visible p))
   \<and> (sorted_wrt (\<lambda>p q. pipe_x p \<le> pipe_x q) ps \<and> (\<forall>p\<in>set ps. pipe_x p < of_int WIN_WIDTH)
        \<longrightarrow> (\<forall>p\<in>set (cull ps). visible p))"
  using cull_split [of ps] cull_visible [of ps] by blast

theorem C7_cull_removes_only_invisible_witness:
  "cull [pipe_at (- 100), pipe_at (- 85), pipe_at 120, pipe_at 400] = [pipe_at 120, pipe_at 400]
   \<and> \<not> visible (pipe_at (- 100)) \<and> \<not> visible (pipe_at (- 85))
   \<and> visible (pipe_at 120) \<and> visible (pipe_at 400)"
proof -
  have ordered: "sorted_wrt (\<lambda>p q. pipe_x p \<le> pipe_x q)
      [pipe_at (- 100), pipe_at (- 85), pipe_at 120, pipe_at 400]"
    by (simp add: pipe_at_def)
  have below: "\<forall>p\<in>set [pipe_at (- 100), pipe_at (- 85), pipe_at 120, pipe_at 400].
      pipe_x p < of_int WIN_WIDTH"
    by (simp add: pipe_at_def geometry_defs)
  have culled: "cull [pipe_at (- 100), pipe_at (- 85), pipe_at 120, pipe_at 400]
      = [pipe_at 120, pipe_at 400]"
    by (simp add: pipe_at_def visible_def geometry_defs)
  have gone: "\<not> visible (pipe_at (- 100)) \<and> \<not> visible (pipe_at (- 85))"
    by (simp add: pipe_at_def visible_def geometry_defs)
  have imp: "sorted_wrt (\<lambda>p q. pipe_x p \<le> pipe_x q)
        [pipe_at (- 100), pipe_at (- 85), pipe_at 120, pipe_at 400]
      \<and> (\<forall>p\<in>set [pipe_at (- 100), pipe_at (- 85), pipe_at 120, pipe_at 400].
            pipe_x p < of_int WIN_WIDTH)
      \<longrightarrow> (\<forall>p\<in>set (cull [pipe_at (- 100), pipe_at (- 85), pipe_at 120, pipe_at 400]).
            visible p)"
    by (rule conjunct2 [OF C7_cull_removes_only_invisible])
  have "\<forall>p\<in>set (cull [pipe_at (- 100), pipe_at (- 85), pipe_at 120, pipe_at 400]). visible p"
    by (rule mp [OF imp conjI [OF ordered below]])
  then have "\<forall>p\<in>set [pipe_at 120, pipe_at 400]. visible p"
    by (simp only: culled)
  then have "visible (pipe_at 120) \<and> visible (pipe_at 400)"
    by simp
  with gone show ?thesis by (intro conjI) (rule culled, simp_all)
qed

section \<open>Scoring\<close>

lemma score_loop_snd:
  "snd (score_loop bx ps sc) = sc + int (length (filter (scorable bx) ps))"
  by (induction ps arbitrary: sc) (simp_all add: scorable_def split_beta)

lemma score_loop_fst:
  "fst (score_loop bx ps sc) =
     map (\<lambda>p. if scorable bx p then p\<lparr>score_counted := True\<rparr> else p) ps"
  by (induction ps arbitrary: sc) (simp_all add: scorable_def split_beta)

lemma score_loop_counted:
  "\<forall>p\<in>set ps. \<not> scorable bx p \<Longrightarrow> score_loop bx ps sc = (ps, sc)"
  by (induction ps arbitrary: sc) (simp_all add: scorable_def)

lemma not_scorable_after: "\<forall>p\<in>set (fst (score_loop bx ps sc)). \<not> scorable bx p"
  by (auto simp: score_loop_fst scorable_def)

lemma score_loop_twice:
  "score_loop bx (fst (score_loop bx ps sc)) sc' = (fst (score_loop bx ps sc), sc')"
  by (rule score_loop_counted) (rule not_scorable_after)

lemma score_pass_eq:
  "score_pass g =
     g\<lparr>pipes := fst (score_loop (bird_x (bird g)) (pipes g) (score g)),
       score := snd (score_loop (bird_x (bird g)) (pipes g) (score g))\<rparr>"
  by (simp add: score_pass_def split_beta)

text \<open>
  C8: a second scoring pass right after the first changes nothing, neither the score nor
  a flag; the first pass adds one point for each pipe that is past the bird and not yet
  counted, so at most one per pipe; and a pipe whose \<open>score_counted\<close> is set adds nothing
  in any later pass, wherever the bird is.
\<close>

theorem C8_scoring_idempotent:
  "score_pass (score_pass g) = score_pass g
   \<and> score (score_pass g)
       = score g + int (length (filter (scorable (bird_x (bird g))) (pipes g)))
   \<and> score_loop bx [p\<lparr>score_counted := True\<rparr>] sc = ([p\<lparr>score_counted := True\<rparr>], sc)"
  by (simp add: score_pass_eq score_loop_twice score_loop_snd)

theorem C8_scoring_idempotent_witness:
  "score (score_pass g_over) = 2 \<and> score (score_pass (score_pass g_over)) = 2"
  using C8_scoring_idempotent [of g_over]
  by (simp add: g_over_def pipe_at_def scorable_def PipePair_WIDTH_def
      PipePair_init_def score_pass_def)

section \<open>The world update\<close>

lemma py_mod_of_int: "py_mod (of_int n) (of_int k) = of_int (n mod k)"
proof -
  have "\<lfloor>(of_int n :: real) / of_int k\<rfloor> = n div k" by (rule floor_divide_of_int_eq)
  then have "py_mod (of_int n) (of_int k) = of_int n - of_int k * of_int (n div k)"
    by (simp add: py_mod_def)
  also have "\<dots> = of_int (n - k * (n div k))" by simp
  also have "n - k * (n div k) = n mod k" by (simp add: minus_mult_div_eq_mod)
  finally show ?thesis .
qed

lemma spawn_due_iff: "spawn_due g = (\<not> paused g \<and> frame_clock g mod 180 = 0)"
proof -
  have "msec_to_frames (of_int ADD_INTERVAL) (of_int FPS) = of_int 180"
    by (simp add: msec_to_frames_def ADD_INTERVAL_def FPS_def)
  then show ?thesis
    by (simp add: spawn_due_def py_mod_of_int del: of_int_numeral)
qed

lemma spawn_step_fields:
  "bird (spawn_step r g) = bird g" "score (spawn_step r g) = score g"
  "paused (spawn_step r g) = paused g" "frame_clock (spawn_step r g) = frame_clock g"
  "done_flag (spawn_step r g) = done_flag g"
  by (simp_all add: spawn_step_def)

lemma spawn_step_paused: "paused g \<Longrightarrow> spawn_step r g = g"
  by (simp add: spawn_step_def spawn_due_def)

lemma spawn_step_done: "spawn_step r (g\<lparr>done_flag := d\<rparr>) = (spawn_step r g)\<lparr>done_flag := d\<rparr>"
  by (simp add: spawn_step_def spawn_due_def)

lemma bird_x_update: "bird_x (Bird_update d b) = bird_x b"
  by (simp add: Bird_update_def Let_def)

lemma update_world_paused: "paused g \<Longrightarrow> update_world coll r g = g"
  by (simp add: update_world_def spawn_step_paused)

lemma update_world_running:
  "\<not> paused g \<Longrightarrow> update_world coll r g =
     g\<lparr>bird := Bird_update 1 (bird g),
       pipes := fst (score_loop (bird_x (bird g))
                  (map (PipePair_update 1) (cull (pipes (spawn_step r g)))) (score g)),
       score := snd (score_loop (bird_x (bird g))
                  (map (PipePair_update 1) (cull (pipes (spawn_step r g)))) (score g)),
       done_flag := (done_flag g \<or> collision coll (spawn_step r g))\<rparr>"
  by (simp add: update_world_def Let_def score_pass_eq spawn_step_fields bird_x_update
      spawn_step_def)

lemma handle_events_score: "score (handle_events es g) = score g"
  by (induction es arbitrary: g) simp_all

lemma handle_events_frame_clock: "frame_clock (handle_events es g) = frame_clock g"
  by (induction es arbitrary: g) simp_all

lemma update_world_frame_clock: "frame_clock (update_world coll r g) = frame_clock g"
  by (cases "paused g") (simp_all add: update_world_paused update_world_running)

lemma update_world_score:
  "score (update_world coll r g) =
     (if paused g then score g
      else score g + int (length (filter (scorable (bird_x (bird g)))
                                    (map (PipePair_update 1) (cull (pipes (spawn_step r g)))))))"
  by (simp add: update_world_paused update_world_running score_loop_snd)

lemma update_world_pipes_length:
  "\<not> paused g \<Longrightarrow>
   length (pipes (update_world coll r g)) = length (cull (pipes (spawn_step r g)))"
  by (simp add: update_world_running score_loop_fst)

lemma update_world_done:
  "update_world coll r (g\<lparr>done_flag := d\<rparr>) =
     (update_world coll r g)\<lparr>done_flag := done_flag (update_world coll r (g\<lparr>done_flag := d\<rparr>))\<rparr>"
  by (cases "paused g")
     (simp_all add: update_world_paused update_world_running spawn_step_done collision_def)

lemma render_world_frame_clock: "frame_clock (render_world g) = frame_clock g + 1"
  by (simp add: render_world_def)

lemma tick_frame_clock: "frame_clock (tick coll r es g) = frame_clock g + 1"
  by (simp add: tick_def render_world_frame_clock update_world_frame_clock
      handle_events_frame_clock)

text \<open>Two runs of \<open>update_world\<close>, evaluated.\<close>

lemma update_world_g_floor:
  "update_world coll r g_floor =
     \<lparr>bird = \<lparr>bird_x = 50, bird_y = 483, msec_to_climb = 0\<rparr>,
      pipes = [(pipe_at (- 43))\<lparr>score_counted := True\<rparr>, pipe_at 197],
      frame_clock = 1, score = 1, done_flag = True, paused = False\<rparr>"
  by (simp add: update_world_running g_floor_def spawn_step_def spawn_due_iff collision_def
      visible_def pipe_at_def PipePair_init_def PipePair_update_def Bird_update_def
      frames_to_msec_def geometry_defs ANIMATION_SPEED_def SINK_SPEED_def)

lemma update_world_g_over:
  "update_world no_hit r g_over =
     \<lparr>bird = \<lparr>bird_x = 50, bird_y = 243, msec_to_climb = 0\<rparr>,
      pipes = [(pipe_at (- 43))\<lparr>score_counted := True\<rparr>, pipe_at 197],
      frame_clock = 1, score = 1, done_flag = True, paused = False\<rparr>"
  by (simp add: update_world_running g_over_def spawn_step_def spawn_due_iff collision_def
      visible_def pipe_at_def PipePair_init_def PipePair_update_def Bird_update_def
      frames_to_msec_def geometry_defs ANIMATION_SPEED_def SINK_SPEED_def no_hit_def)

subsection \<open>A tick with a collision\<close>

text \<open>
  C2, as stated, fails: in \<open>g_floor\<close> the game is not paused and the bird is on the floor,
  so the collision condition holds; \<open>update_world\<close> sets \<open>done\<close> and then still drops the
  off-screen pipe, moves the two others, moves the bird from 480 to 483 and scores a point.
\<close>

theorem C2_mutation_after_collision:
  "\<not> paused g_floor \<and> collision no_hit (spawn_step 1 g_floor)
   \<and> done_flag (update_world no_hit 1 g_floor)
   \<and> pipes g_floor = [pipe_at (- 90), pipe_at (- 40), pipe_at 200]
   \<and> pipes (update_world no_hit 1 g_floor)
       = [(pipe_at (- 43))\<lparr>score_counted := True\<rparr>, pipe_at 197]
   \<and> bird_y (bird g_floor) = 480 \<and> bird_y (bird (update_world no_hit 1 g_floor)) = 483
   \<and> score g_floor = 0 \<and> score (update_world no_hit 1 g_floor) = 1"
  by (simp add: update_world_g_floor)
     (simp add: g_floor_def collision_def spawn_step_def spawn_due_iff geometry_defs)

text \<open>
  C2, amended: in a non-paused call of \<open>update_world\<close> in which the collision condition
  holds, \<open>done\<close> is set, and the rest of the call runs as in any other non-paused call:
  the off-screen pipes at the head are removed, every remaining pipe and the bird are
  advanced by one frame, and the scoring loop runs over the moved pipes; \<open>frame_clock\<close>
  and \<open>paused\<close> are not written.
\<close>

theorem C2_collision_sets_done_and_world_advances:
  assumes "\<not> paused g" and "collision coll (spawn_step r g)"
  shows "done_flag (update_world coll r g)
     \<and> pipes (update_world coll r g) =
         fst (score_loop (bird_x (bird g))
                (map (PipePair_update 1) (cull (pipes (spawn_step r g)))) (score g))
     \<and> score (update_world coll r g) =
         snd (score_loop (bird_x (bird g))
                (map (PipePair_update 1) (cull (pipes (spawn_step r g)))) (score g))
     \<and> bird (update_world coll r g) = Bird_update 1 (bird g)
     \<and> frame_clock (update_world coll r g) = frame_clock g
     \<and> paused (update_world coll r g) = paused g"
  using assms by (simp add: update_world_running)

theorem C2_collision_sets_done_and_world_advances_witness:
  "\<not> paused g_floor \<and> collision always_hit (spawn_step 3 g_floor)
   \<and> done_flag (update_world always_hit 3 g_floor)
   \<and> bird (update_world always_hit 3 g_floor)
       = \<lparr>bird_x = 50, bird_y = 483, msec_to_climb = 0\<rparr>"
proof -
  have p: "\<not> paused g_floor" by (simp add: g_floor_def)
  have c: "collision always_hit (spawn_step 3 g_floor)"
    by (simp add: g_floor_def collision_def spawn_step_def spawn_due_iff always_hit_def)
  from C2_collision_sets_done_and_world_advances [OF p c] p c show ?thesis
    by (simp add: g_floor_def Bird_update_def frames_to_msec_def FPS_def SINK_SPEED_def)
qed

subsection \<open>The frame counter\<close>

text \<open>
  C3, as stated, fails: the tick of \<open>g_floor\<close> with no input is not paused and is the
  tick that sets \<open>done\<close>, and \<open>frame_clock\<close> still advances by 1 in it.
\<close>

theorem C3_frame_clock_advances_on_ending_tick:
  "\<not> paused (handle_events [] g_floor) \<and> \<not> done_flag g_floor
   \<and> done_flag (tick no_hit 1 [] g_floor)
   \<and> frame_clock (tick no_hit 1 [] g_floor) = frame_clock g_floor + 1"
  by (simp add: tick_def render_world_def update_world_g_floor) (simp add: g_floor_def)

text \<open>
  C3, amended: in every tick (\<open>handle_events\<close>, \<open>update_world\<close>, \<open>render_world\<close>) in which
  \<open>paused\<close> is false once the events are handled, \<open>frame_clock\<close> advances by exactly 1,
  also in the tick that sets \<open>done\<close>.
\<close>

theorem C3_frame_clock_advances_when_not_paused:
  "\<not> paused (handle_events es g) \<Longrightarrow> frame_clock (tick coll r es g) = frame_clock g + 1"
  by (simp add: tick_frame_clock)

theorem C3_frame_clock_advances_when_not_paused_witness:
  "\<not> paused (handle_events [KEYUP K_SPACE] g_over)
   \<and> frame_clock (tick no_hit 2 [KEYUP K_SPACE] g_over) = 2"
proof -
  have p: "\<not> paused (handle_events [KEYUP K_SPACE] g_over)" by (simp add: g_over_def)
  from C3_frame_clock_advances_when_not_paused [OF p] p show ?thesis by (simp add: g_over_def)
qed

subsection \<open>The \<open>done\<close> flag is not read\<close>

text \<open>
  C9: two states that differ only in \<open>done\<close> give the same bird, the same pipes and the
  same score after \<open>update_world\<close>; and in \<open>g_over\<close>, where \<open>done\<close> is set and the game is
  not paused, \<open>update_world\<close> moves the bird (240 to 243), drops and moves pipes, and
  raises the score from 0 to 1.
\<close>

theorem C9_update_world_ignores_done:
  "bird (update_world coll r (g\<lparr>done_flag := d\<rparr>)) = bird (update_world coll r g)
   \<and> pipes (update_world coll r (g\<lparr>done_flag := d\<rparr>)) = pipes (update_world coll r g)
   \<and> score (update_world coll r (g\<lparr>done_flag := d\<rparr>)) = score (update_world coll r g)
   \<and> done_flag g_over \<and> \<not> paused g_over
   \<and> bird_y (bird g_over) = 240 \<and> bird_y (bird (update_world no_hit 1 g_over)) = 243
   \<and> map pipe_x (pipes g_over) = [- 90, - 40, 200]
   \<and> map pipe_x (pipes (update_world no_hit 1 g_over)) = [- 43, 197]
   \<and> score g_over = 0 \<and> score (update_world no_hit 1 g_over) = 1"
proof -
  have "update_world coll r (g\<lparr>done_flag := d\<rparr>) =
     (update_world coll r g)\<lparr>done_flag := done_flag (update_world coll r (g\<lparr>done_flag := d\<rparr>))\<rparr>"
    by (rule update_world_done)
  then have "bird (update_world coll r (g\<lparr>done_flag := d\<rparr>)) = bird (update_world coll r g)
   \<and> pipes (update_world coll r (g\<lparr>done_flag := d\<rparr>)) = pipes (update_world coll r g)
   \<and> score (update_world coll r (g\<lparr>done_flag := d\<rparr>)) = score (update_world coll r g)"
    by (metis Game.select_convs(1,2,4) Game.surjective Game.update_convs(5))
  moreover have "done_flag g_over \<and> \<not> paused g_over \<and> bird_y (bird g_over) = 240
     \<and> map pipe_x (pipes g_over) = [- 90, - 40, 200] \<and> score g_over = 0"
    by (simp add: g_over_def pipe_at_def)
  moreover have "bird_y (bird (update_world no_hit 1 g_over)) = 243
     \<and> map pipe_x (pipes (update_world no_hit 1 g_over)) = [- 43, 197]
     \<and> score (update_world no_hit 1 g_over) = 1"
    by (simp add: update_world_g_over pipe_at_def)
  ultimately show ?thesis by simp
qed

theorem C9_update_world_ignores_done_witness:
  "bird (update_world no_hit 1 (g_over\<lparr>done_flag := False\<rparr>))
     = \<lparr>bird_x = 50, bird_y = 243, msec_to_climb = 0\<rparr>
   \<and> score (update_world no_hit 1 (g_over\<lparr>done_flag := False\<rparr>)) = 1"
  using C9_update_world_ignores_done [where coll = no_hit and r = 1 and g = g_over and d = False]
  by (simp add: update_world_g_over)

subsection \<open>The score never goes down\<close>

lemma new_pipe_visible: "visible (PipePair_init r)"
  by (simp add: visible_def PipePair_init_def Let_def geometry_defs)

lemma new_pipe_not_scorable:
  "bx \<le> 644 \<Longrightarrow> \<not> scorable bx (PipePair_update 1 (PipePair_init r))"
  by (simp add: scorable_def PipePair_update_def PipePair_init_def Let_def geometry_defs
      frames_to_msec_def ANIMATION_SPEED_def)

lemma scored_le_before:
  assumes "bird_x (bird g) \<le> 644"
  shows "length (filter (scorable (bird_x (bird g)))
            (map (PipePair_update 1) (cull (pipes (spawn_step r g))))) \<le> length (pipes g)"
proof (cases "spawn_due g")
  case False
  then have "spawn_step r g = g" by (simp add: spawn_step_def)
  then have "length (filter (scorable (bird_x (bird g)))
            (map (PipePair_update 1) (cull (pipes (spawn_step r g))))) \<le> length (cull (pipes g))"
    using length_filter_le [of "scorable (bird_x (bird g))"
        "map (PipePair_update 1) (cull (pipes g))"]
    by simp
  also have "\<dots> \<le> length (pipes g)" by (rule length_cull)
  finally show ?thesis .
next
  case True
  then have "cull (pipes (spawn_step r g)) = cull (pipes g) @ [PipePair_init r]"
    by (simp add: spawn_step_def cull_snoc new_pipe_visible)
  then have "length (filter (scorable (bird_x (bird g)))
            (map (PipePair_update 1) (cull (pipes (spawn_step r g)))))
          = length (filter (scorable (bird_x (bird g)))
              (map (PipePair_update 1) (cull (pipes g))))"
    using new_pipe_not_scorable [OF assms, of r] by simp
  also have "\<dots> \<le> length (cull (pipes g))"
    using length_filter_le [of "scorable (bird_x (bird g))"
        "map (PipePair_update 1) (cull (pipes g))"]
    by simp
  also have "\<dots> \<le> length (pipes g)" by (rule length_cull)
  finally show ?thesis .
qed

text \<open>
  C10: the score is 0 at construction, \<open>handle_events\<close> leaves it as it is, and
  \<open>update_world\<close> never lowers it; one call of \<open>update_world\<close> raises it by at most the
  number of pipes in the deque after the call, and, with the bird at the \<open>x\<close> the game
  gives it, by at most the number of pipes in the deque before the call.
\<close>

theorem C10_score_monotone:
  "score Game_init = 0
   \<and> score (handle_events es g) = score g
   \<and> score g \<le> score (update_world coll r g)
   \<and> score (update_world coll r g) - score g \<le> int (length (pipes (update_world coll r g)))
   \<and> (bird_x (bird g) = bird_x (bird Game_init)
        \<longrightarrow> score (update_world coll r g) - score g \<le> int (length (pipes g)))"
proof (intro conjI impI)
  show "score Game_init = 0" by (simp add: Game_init_def)
  show "score (handle_events es g) = score g" by (rule handle_events_score)
  show "score g \<le> score (update_world coll r g)" by (simp add: update_world_score)
  show "score (update_world coll r g) - score g \<le> int (length (pipes (update_world coll r g)))"
  proof (cases "paused g")
    case True
    then show ?thesis by (simp add: update_world_paused)
  next
    case False
    have "length (filter (scorable (bird_x (bird g)))
            (map (PipePair_update 1) (cull (pipes (spawn_step r g)))))
          \<le> length (cull (pipes (spawn_step r g)))"
      using length_filter_le [of "scorable (bird_x (bird g))"
          "map (PipePair_update 1) (cull (pipes (spawn_step r g)))"] by simp
    with False show ?thesis
      by (simp add: update_world_score update_world_pipes_length)
  qed
next
  assume "bird_x (bird g) = bird_x (bird Game_init)"
  then have "bird_x (bird g) \<le> 644" by (simp add: Game_init_def Bird_init_def)
  from scored_le_before [OF this, of r]
  show "score (update_world coll r g) - score g \<le> int (length (pipes g))"
    by (simp add: update_world_score)
qed

theorem C10_score_monotone_witness:
  "bird_x (bird g_floor) = bird_x (bird Game_init)
   \<and> score (update_world no_hit 1 g_floor) - score g_floor = 1
   \<and> length (pipes (update_world no_hit 1 g_floor)) = 2 \<and> length (pipes g_floor) = 3"
  using C10_score_monotone [of "[]" g_floor no_hit 1]
  by (simp add: update_world_g_floor) (simp add: g_floor_def Game_init_def Bird_init_def)

end
